theory Spec2Isabelle
  imports Main
begin

section \<open>Requests\<close>

text \<open>
  \<^verbatim>\<open>MainWindow.request_new_qr_code\<close> hands the worker a 5-tuple
  \<^verbatim>\<open>(text, error, version, mode, scale)\<close>. The combo boxes deliver their item data
  (a Python string or \<^verbatim>\<open>None\<close>), \<^verbatim>\<open>get_version\<close> an integer or \<^verbatim>\<open>None\<close>.
\<close>

record request =
  req_text :: string
  req_error :: "string option"
  req_version :: "int option"
  req_mode :: "string option"
  req_scale :: int

section \<open>The mailbox of \<^verbatim>\<open>WorkerThread\<close>\<close>

text \<open>
  The fields set up by \<^verbatim>\<open>WorkerThread.__init__\<close>: a \<^verbatim>\<open>QSemaphore()\<close> (its counter, initially
  0), a \<^verbatim>\<open>QMutex()\<close> (the thread that holds it, if any) and the slot \<^verbatim>\<open>self.parameters\<close>
  (initially \<^verbatim>\<open>None\<close>).
\<close>

datatype thread = Submitter | Worker

record worker_thread =
  semaphore :: nat
  mutex :: "thread option"
  parameters :: "request option"

definition WorkerThread_init :: worker_thread where
  "WorkerThread_init = \<lparr>semaphore = 0, mutex = None, parameters = None\<rparr>"

text \<open>
  The primitive operations of the two Qt objects. An operation that would block the calling
  thread has no successor state (\<open>None\<close>).
\<close>

definition sem_available :: "worker_thread \<Rightarrow> nat" where
  "sem_available w = semaphore w"

definition sem_release :: "nat \<Rightarrow> worker_thread \<Rightarrow> worker_thread" where
  "sem_release n w = w\<lparr>semaphore := semaphore w + n\<rparr>"

definition sem_acquire :: "nat \<Rightarrow> worker_thread \<Rightarrow> worker_thread option" where
  "sem_acquire n w = (if n \<le> semaphore w then Some (w\<lparr>semaphore := semaphore w - n\<rparr>) else None)"

definition mutex_lock :: "thread \<Rightarrow> worker_thread \<Rightarrow> worker_thread option" where
  "mutex_lock t w = (if mutex w = None then Some (w\<lparr>mutex := Some t\<rparr>) else None)"

definition mutex_unlock :: "worker_thread \<Rightarrow> worker_thread" where
  "mutex_unlock w = w\<lparr>mutex := None\<rparr>"

subsection \<open>The two methods, run without interruption\<close>

text \<open>
  \<^verbatim>\<open>set_parameters\<close>: under the mutex, overwrite the slot and release the semaphore when
  its counter reads 0.
\<close>

definition set_parameters :: "request \<Rightarrow> worker_thread \<Rightarrow> worker_thread option" where
  "set_parameters p w =
     (case mutex_lock Submitter w of
        None \<Rightarrow> None
      | Some w1 \<Rightarrow>
          let w2 = w1\<lparr>parameters := Some p\<rparr>;
              w3 = (if sem_available w2 = 0 then sem_release 1 w2 else w2)
          in Some (mutex_unlock w3))"

text \<open>
  \<^verbatim>\<open>get_parameters\<close>: acquire the semaphore, then under the mutex read the slot, clear it
  and return what was read.
\<close>

definition get_parameters :: "worker_thread \<Rightarrow> (request option \<times> worker_thread) option" where
  "get_parameters w =
     (case sem_acquire 1 w of
        None \<Rightarrow> None
      | Some w1 \<Rightarrow>
          (case mutex_lock Worker w1 of
             None \<Rightarrow> None
           | Some w2 \<Rightarrow>
               let got = parameters w2;
                   w3 = w2\<lparr>parameters := None\<rparr>
               in Some (got, mutex_unlock w3)))"

text \<open>A burst of calls of \<^verbatim>\<open>set_parameters\<close>, one after the other.\<close>

fun submit_all :: "request list \<Rightarrow> worker_thread \<Rightarrow> worker_thread option" where
  "submit_all [] w = Some w"
| "submit_all (p # ps) w =
     (case set_parameters p w of None \<Rightarrow> None | Some w' \<Rightarrow> submit_all ps w')"

text \<open>
  Any sequence of calls of the two methods, each run to its end before the next begins.
\<close>

datatype method_call = SetParameters request | GetParameters

fun calls :: "method_call list \<Rightarrow> worker_thread \<Rightarrow> worker_thread option" where
  "calls [] w = Some w"
| "calls (SetParameters p # cs) w =
     (case set_parameters p w of None \<Rightarrow> None | Some w' \<Rightarrow> calls cs w')"
| "calls (GetParameters # cs) w =
     (case get_parameters w of None \<Rightarrow> None | Some (got, w') \<Rightarrow> calls cs w')"

section \<open>The worker loop\<close>

text \<open>
  Python exceptions, as far as \<^verbatim>\<open>WorkerThread.run\<close> tells them apart: its only handler is
  \<^verbatim>\<open>except ValueError\<close>. \<open>ValueError\<close> stands for that class and its subclasses, \<open>TypeError\<close>
  is what unpacking \<^verbatim>\<open>None\<close> raises, \<open>OtherError\<close> is any other exception.
\<close>

datatype exn = ValueError string | TypeError string | OtherError string

text \<open>The two signals of the thread, \<^verbatim>\<open>resultReady(QImage)\<close> and \<^verbatim>\<open>errorOccurred(str)\<close>.\<close>

datatype 'i signal = resultReady 'i | errorOccurred string

text \<open>
  The library calls are parameters of the model: \<open>create\<close> is \<^verbatim>\<open>pyqrcode.create(text, error,
  version, mode)\<close>, \<open>png\<close> is \<^verbatim>\<open>qr.png(buffer, scale=scale)\<close> followed by
  \<^verbatim>\<open>QImage.fromData(buffer.getvalue())\<close>. Either returns a value or raises.
\<close>

type_synonym 'q encoder = "string \<Rightarrow> string option \<Rightarrow> int option \<Rightarrow> string option \<Rightarrow> exn + 'q"
type_synonym ('q, 'i) rasterizer = "'q \<Rightarrow> int \<Rightarrow> exn + 'i"

text \<open>
  The tuple assignment \<^verbatim>\<open>text, error, version, mode, scale = self.get_parameters()\<close>: a
  5-tuple unpacks, \<^verbatim>\<open>None\<close> raises \<^verbatim>\<open>TypeError\<close>.
\<close>

definition unpack :: "request option \<Rightarrow> exn + request" where
  "unpack got =
     (case got of
        None \<Rightarrow> Inl (TypeError ''cannot unpack non-iterable NoneType object'')
      | Some r \<Rightarrow> Inr r)"

text \<open>The body of the \<^verbatim>\<open>try\<close> block, from the value \<^verbatim>\<open>get_parameters\<close> returned.\<close>

definition try_body ::
  "'q encoder \<Rightarrow> ('q, 'i) rasterizer \<Rightarrow> request option \<Rightarrow> exn + 'i signal" where
  "try_body create png got =
     (case unpack got of
        Inl e \<Rightarrow> Inl e
      | Inr r \<Rightarrow>
          (case create (req_text r) (req_error r) (req_version r) (req_mode r) of
             Inl e \<Rightarrow> Inl e
           | Inr qr \<Rightarrow>
               (case png qr (req_scale r) of
                  Inl e \<Rightarrow> Inl e
                | Inr img \<Rightarrow> Inr (resultReady img))))"

text \<open>
  One pass through the \<^verbatim>\<open>while True\<close> body: the \<^verbatim>\<open>try\<close> block with its handler. A
  \<^verbatim>\<open>ValueError\<close> is turned into \<^verbatim>\<open>errorOccurred.emit(str(e))\<close>; any other exception leaves
  \<^verbatim>\<open>run\<close>.
\<close>

datatype 'i outcome = Emitted "'i signal" | Uncaught exn

definition iteration ::
  "'q encoder \<Rightarrow> ('q, 'i) rasterizer \<Rightarrow> request option \<Rightarrow> 'i outcome" where
  "iteration create png got =
     (case try_body create png got of
        Inr sig \<Rightarrow> Emitted sig
      | Inl (ValueError m) \<Rightarrow> Emitted (errorOccurred m)
      | Inl e \<Rightarrow> Uncaught e)"

text \<open>
  \<^verbatim>\<open>run\<close>, as a function of the values its successive \<^verbatim>\<open>get_parameters\<close> calls return: the
  signals emitted in order, and the exception that ended the thread, if any. With the list
  used up and no exception the thread is waiting in \<^verbatim>\<open>get_parameters\<close>.
\<close>

fun run ::
  "'q encoder \<Rightarrow> ('q, 'i) rasterizer \<Rightarrow> request option list \<Rightarrow> 'i signal list \<times> exn option" where
  "run create png [] = ([], None)"
| "run create png (got # rest) =
     (case iteration create png got of
        Emitted sig \<Rightarrow> (case run create png rest of (out, e) \<Rightarrow> (sig # out, e))
      | Uncaught e \<Rightarrow> ([], Some e))"

section \<open>The two threads, step by step\<close>

text \<open>
  The GUI thread runs \<^verbatim>\<open>set_parameters\<close> while the worker thread runs \<^verbatim>\<open>run\<close>. Each thread is
  at a program point; a step is one primitive operation on the shared \<^verbatim>\<open>WorkerThread\<close>
  fields, or (for the worker) the thread-local rest of the loop body.

  Worker: \<open>W_Acquire\<close> is \<^verbatim>\<open>self.semaphore.acquire(1)\<close>, \<open>W_Lock\<close> the entry of
  \<^verbatim>\<open>with QMutexLocker(self.mutex)\<close>, \<open>W_Read\<close> the two assignments under the lock,
  \<open>W_Unlock got\<close> the \<^verbatim>\<open>return\<close> that leaves the \<^verbatim>\<open>with\<close> block with the value read,
  \<open>W_Process got\<close> the rest of the \<^verbatim>\<open>try\<close> block and its handler, \<open>W_Dead e\<close> the thread
  ended by the exception \<open>e\<close>.

  Submitter: \<open>S_Lock p\<close> is the entry of the \<^verbatim>\<open>with\<close> block of \<^verbatim>\<open>set_parameters(p)\<close>,
  \<open>S_Write p\<close> the assignment to the slot, \<open>S_Check\<close> the test
  \<^verbatim>\<open>self.semaphore.available() == 0\<close>, \<open>S_Release\<close> the call \<^verbatim>\<open>self.semaphore.release(1)\<close>,
  \<open>S_Unlock\<close> the end of the \<^verbatim>\<open>with\<close> block; at \<open>S_Idle\<close> the GUI thread is outside
  \<^verbatim>\<open>set_parameters\<close>.
\<close>

datatype worker_pc =
  W_Acquire | W_Lock | W_Read | W_Unlock "request option" | W_Process "request option"
| W_Dead exn

datatype submitter_pc =
  S_Idle | S_Lock request | S_Write request | S_Check | S_Release | S_Unlock

record 'i system =
  wt :: worker_thread
  worker_at :: worker_pc
  submitter_at :: submitter_pc
  emitted :: "'i signal list"

text \<open>
  \<^verbatim>\<open>MainWindow.init_thread\<close> creates and starts the worker; nothing has been submitted or
  emitted yet.
\<close>

definition system_init :: "'i system" where
  "system_init =
     \<lparr>wt = WorkerThread_init, worker_at = W_Acquire, submitter_at = S_Idle, emitted = []\<rparr>"

definition worker_step ::
  "'q encoder \<Rightarrow> ('q, 'i) rasterizer \<Rightarrow> 'i system \<Rightarrow> 'i system option" where
  "worker_step create png s =
     (case worker_at s of
        W_Acquire \<Rightarrow>
          (case sem_acquire 1 (wt s) of
             None \<Rightarrow> None
           | Some w \<Rightarrow> Some (s\<lparr>wt := w, worker_at := W_Lock\<rparr>))
      | W_Lock \<Rightarrow>
          (case mutex_lock Worker (wt s) of
             None \<Rightarrow> None
           | Some w \<Rightarrow> Some (s\<lparr>wt := w, worker_at := W_Read\<rparr>))
      | W_Read \<Rightarrow>
          Some (s\<lparr>wt := (wt s)\<lparr>parameters := None\<rparr>, worker_at := W_Unlock (parameters (wt s))\<rparr>)
      | W_Unlock got \<Rightarrow>
          Some (s\<lparr>wt := mutex_unlock (wt s), worker_at := W_Process got\<rparr>)
      | W_Process got \<Rightarrow>
          (case iteration create png got of
             Emitted sig \<Rightarrow> Some (s\<lparr>worker_at := W_Acquire, emitted := emitted s @ [sig]\<rparr>)
           | Uncaught e \<Rightarrow> Some (s\<lparr>worker_at := W_Dead e\<rparr>))
      | W_Dead e \<Rightarrow> None)"

definition submitter_step :: "'i system \<Rightarrow> 'i system option" where
  "submitter_step s =
     (case submitter_at s of
        S_Idle \<Rightarrow> None
      | S_Lock p \<Rightarrow>
          (case mutex_lock Submitter (wt s) of
             None \<Rightarrow> None
           | Some w \<Rightarrow> Some (s\<lparr>wt := w, submitter_at := S_Write p\<rparr>))
      | S_Write p \<Rightarrow>
          Some (s\<lparr>wt := (wt s)\<lparr>parameters := Some p\<rparr>, submitter_at := S_Check\<rparr>)
      | S_Check \<Rightarrow>
          Some (s\<lparr>submitter_at := (if sem_available (wt s) = 0 then S_Release else S_Unlock)\<rparr>)
      | S_Release \<Rightarrow>
          Some (s\<lparr>wt := sem_release 1 (wt s), submitter_at := S_Unlock\<rparr>)
      | S_Unlock \<Rightarrow>
          Some (s\<lparr>wt := mutex_unlock (wt s), submitter_at := S_Idle\<rparr>))"

text \<open>
  The GUI thread enters \<^verbatim>\<open>set_parameters(p)\<close> (a slot of \<^verbatim>\<open>MainWindow\<close> fired) only when it
  is not inside an earlier call.
\<close>

definition call :: "request \<Rightarrow> 'i system \<Rightarrow> 'i system option" where
  "call p s = (if submitter_at s = S_Idle then Some (s\<lparr>submitter_at := S_Lock p\<rparr>) else None)"

datatype action = Call request | SubStep | WorkStep

definition step ::
  "'q encoder \<Rightarrow> ('q, 'i) rasterizer \<Rightarrow> action \<Rightarrow> 'i system \<Rightarrow> 'i system option" where
  "step create png a s =
     (case a of
        Call p \<Rightarrow> call p s
      | SubStep \<Rightarrow> submitter_step s
      | WorkStep \<Rightarrow> worker_step create png s)"

text \<open>
  A schedule is a list of actions; it runs from a state when each of its actions is enabled
  in turn.
\<close>

fun exec ::
  "'q encoder \<Rightarrow> ('q, 'i) rasterizer \<Rightarrow> action list \<Rightarrow> 'i system \<Rightarrow> 'i system option" where
  "exec create png [] s = Some s"
| "exec create png (a # as) s =
     (case step create png a s of None \<Rightarrow> None | Some s' \<Rightarrow> exec create png as s')"


definition quiescent :: "'q encoder \<Rightarrow> ('q, 'i) rasterizer \<Rightarrow> 'i system \<Rightarrow> bool" where
  "quiescent create png s = (submitter_step s = None \<and> worker_step create png s = None)"

section \<open>The widgets of \<^verbatim>\<open>MainWindow\<close>\<close>

text \<open>
  The Qt widget classes are not part of the repository; they are modelled from their
  documented behaviour, as far as \<^verbatim>\<open>init_ui\<close> and \<^verbatim>\<open>request_new_qr_code\<close> use it.

  A \<^verbatim>\<open>QSpinBox\<close> has a range and a value that always lies within it. A fresh one ranges from 0
  to 99 with value 0. \<^verbatim>\<open>setMinimum\<close> and \<^verbatim>\<open>setMaximum\<close> move the other bound along when the
  range would become empty and pull the value into the new range; \<^verbatim>\<open>setValue\<close> stores the
  nearest value within the range. \<^verbatim>\<open>setSpecialValueText\<close> changes only what is displayed at
  the minimum. The user can step or type to any value within the range; input outside the
  range is not accepted and the value stays what it was.
\<close>

record spin_box =
  sb_minimum :: int
  sb_maximum :: int
  sb_value :: int

definition QSpinBox :: spin_box where
  "QSpinBox = \<lparr>sb_minimum = 0, sb_maximum = 99, sb_value = 0\<rparr>"

definition setRange :: "int \<Rightarrow> int \<Rightarrow> spin_box \<Rightarrow> spin_box" where
  "setRange lo hi sb =
     (let hi' = (if lo < hi then hi else lo)
      in \<lparr>sb_minimum = lo, sb_maximum = hi', sb_value = max lo (min hi' (sb_value sb))\<rparr>)"

definition setMinimum :: "int \<Rightarrow> spin_box \<Rightarrow> spin_box" where
  "setMinimum m sb = setRange m (if m < sb_maximum sb then sb_maximum sb else m) sb"

definition setMaximum :: "int \<Rightarrow> spin_box \<Rightarrow> spin_box" where
  "setMaximum m sb = setRange (if sb_minimum sb < m then sb_minimum sb else m) m sb"

definition setValue :: "int \<Rightarrow> spin_box \<Rightarrow> spin_box" where
  "setValue v sb = sb\<lparr>sb_value := max (sb_minimum sb) (min (sb_maximum sb) v)\<rparr>"

definition user_sets :: "int \<Rightarrow> spin_box \<Rightarrow> spin_box" where
  "user_sets v sb =
     (if sb_minimum sb \<le> v \<and> v \<le> sb_maximum sb then sb\<lparr>sb_value := v\<rparr> else sb)"

text \<open>
  A \<^verbatim>\<open>QComboBox\<close> holds entries, each a label with its item data, and the index of the
  current entry (-1 while there is none). \<^verbatim>\<open>addItem\<close> appends an entry; the first entry added
  becomes the current one. \<^verbatim>\<open>currentData\<close> is the data of the current entry. The user can
  make any existing entry the current one.
\<close>

record combo_box =
  cb_items :: "(string \<times> string option) list"
  cb_index :: int

definition QComboBox :: combo_box where
  "QComboBox = \<lparr>cb_items = [], cb_index = - 1\<rparr>"

definition addItem :: "string \<Rightarrow> string option \<Rightarrow> combo_box \<Rightarrow> combo_box" where
  "addItem label data cb =
     \<lparr>cb_items = cb_items cb @ [(label, data)],
      cb_index = (if cb_items cb = [] then 0 else cb_index cb)\<rparr>"

definition currentData :: "combo_box \<Rightarrow> string option" where
  "currentData cb =
     (if 0 \<le> cb_index cb \<and> cb_index cb < int (length (cb_items cb))
      then snd (cb_items cb ! nat (cb_index cb)) else None)"

definition pick_entry :: "nat \<Rightarrow> combo_box \<Rightarrow> combo_box" where
  "pick_entry i cb = (if i < length (cb_items cb) then cb\<lparr>cb_index := int i\<rparr> else cb)"

section \<open>\<^verbatim>\<open>MainWindow\<close>\<close>

record main_window =
  line_edit :: string
  error_correction_box :: combo_box
  version_box :: spin_box
  mode_box :: combo_box
  scale_box :: spin_box

text \<open>The widgets as \<^verbatim>\<open>MainWindow.init_ui\<close> of \<^verbatim>\<open>main.pyw\<close> sets them up.\<close>

definition init_ui :: main_window where
  "init_ui =
     \<lparr>line_edit = [],
      error_correction_box =
        (addItem ''Low (7%)'' (Some ''L'')
          (addItem ''Medium (15%)'' (Some ''M'')
            (addItem ''Quartile (25%)'' (Some ''Q'')
              (addItem ''High (30%)'' (Some ''H'') QComboBox)))),
      version_box = setMaximum 40 (setMinimum 0 QSpinBox),
      mode_box =
        (addItem ''Binary'' (Some ''binary'')
          (addItem ''Alphanumeric'' (Some ''alphanumeric'')
            (addItem ''Numeric'' (Some ''numeric'')
              (addItem ''Automatic'' None QComboBox)))),
      scale_box = setValue 5 (setMaximum 10 (setMinimum 1 QSpinBox))\<rparr>"

text \<open>
  The mode box of the earlier variants of the program (the second script of
  \<^verbatim>\<open>qrgui.pyw\<close> and both scripts of \<^verbatim>\<open>unnamed/part_000\<close>): one more entry.
\<close>

definition mode_box_variant :: combo_box where
  "mode_box_variant =
     (addItem ''Kanji'' (Some ''kanji'')
       (addItem ''Binary'' (Some ''binary'')
         (addItem ''Alphanumeric'' (Some ''alphanumeric'')
           (addItem ''Numeric'' (Some ''numeric'')
             (addItem ''Automatic'' None QComboBox)))))"

definition get_version :: "main_window \<Rightarrow> int option" where
  "get_version mw = (let v = sb_value (version_box mw) in if v = 0 then None else Some v)"

text \<open>The tuple \<^verbatim>\<open>request_new_qr_code\<close> passes to \<^verbatim>\<open>set_parameters\<close>.\<close>

definition request_new_qr_code :: "main_window \<Rightarrow> request" where
  "request_new_qr_code mw =
     \<lparr>req_text = line_edit mw,
      req_error = currentData (error_correction_box mw),
      req_version = get_version mw,
      req_mode = currentData (mode_box mw),
      req_scale = sb_value (scale_box mw)\<rparr>"

text \<open>
  What the user can do to the widgets. Each of these changes fires a signal connected to
  \<^verbatim>\<open>request_new_qr_code\<close>, which reads the widgets afterwards.
\<close>

datatype ui_event =
  TextEdited string
| ErrorCorrectionChosen nat
| VersionChanged int
| ModeChosen nat
| ScaleChanged int

fun user_event :: "ui_event \<Rightarrow> main_window \<Rightarrow> main_window" where
  "user_event (TextEdited t) mw = mw\<lparr>line_edit := t\<rparr>"
| "user_event (ErrorCorrectionChosen i) mw =
     mw\<lparr>error_correction_box := pick_entry i (error_correction_box mw)\<rparr>"
| "user_event (VersionChanged v) mw = mw\<lparr>version_box := user_sets v (version_box mw)\<rparr>"
| "user_event (ModeChosen i) mw = mw\<lparr>mode_box := pick_entry i (mode_box mw)\<rparr>"
| "user_event (ScaleChanged v) mw = mw\<lparr>scale_box := user_sets v (scale_box mw)\<rparr>"

text \<open>The widgets after the user events \<open>es\<close>, in the order they happen.\<close>

fun apply_events :: "ui_event list \<Rightarrow> main_window \<Rightarrow> main_window" where
  "apply_events [] mw = mw"
| "apply_events (e # es) mw = apply_events es (user_event e mw)"

section \<open>Example data and schedules\<close>

text \<open>
  The request sent for a text while every option is at its start-up setting, and three
  requests as successive keystrokes produce them.
\<close>

definition typed :: "string \<Rightarrow> request" where
  "typed t = \<lparr>req_text = t, req_error = Some ''H'', req_version = None, req_mode = None,
     req_scale = 5\<rparr>"

definition R1 :: request where "R1 = typed ''H''"
definition R2 :: request where "R2 = typed ''HE''"
definition R3 :: request where "R3 = typed ''HEL''"

text \<open>
  Stand-ins for the library, used to instantiate the theorems below at concrete values only;
  they are not \<^verbatim>\<open>pyqrcode\<close>'s behaviour: an encoder that accepts texts of at most three
  characters, rejects longer ones with \<^verbatim>\<open>ValueError\<close> and fails in some other way on the text
  \<open>''?''\<close>; a rasterizer that repeats the symbol \<open>scale\<close> times.
\<close>

definition small_create :: "string encoder" where
  "small_create t e v m =
     (if t = ''?'' then Inl (OtherError ''KeyError'')
      else if length t \<le> 3 then Inr t
      else Inl (ValueError ''too long''))"

definition small_png :: "(string, string list) rasterizer" where
  "small_png qr k = Inr (replicate (nat k) qr)"




text \<open>
  One whole \<^verbatim>\<open>set_parameters(p)\<close> of the GUI thread: with the semaphore at 0 it takes five
  steps (lock, write, test, release, unlock), with a token already there four (no release).
  A burst is a sequence of whole calls from the start, with no step of the worker between
  them.
\<close>

definition submit_steps :: "request \<Rightarrow> action list" where
  "submit_steps p = [Call p, SubStep, SubStep, SubStep, SubStep, SubStep]"

definition later_submit :: "request \<Rightarrow> action list" where
  "later_submit p = [Call p, SubStep, SubStep, SubStep, SubStep]"

fun burst :: "request list \<Rightarrow> action list" where
  "burst [] = []"
| "burst (p # ps) = submit_steps p @ concat (map later_submit ps)"

text \<open>
  The schedule of two keystrokes where the second \<^verbatim>\<open>set_parameters\<close> runs after the worker
  has acquired the semaphore and before it locks the mutex.
\<close>

definition race_schedule :: "action list" where
  "race_schedule =
     submit_steps R1 @ [WorkStep] @ submit_steps R2 @ [WorkStep, WorkStep, WorkStep, WorkStep]
       @ [WorkStep, WorkStep, WorkStep, WorkStep, WorkStep]"

section \<open>Invariants used in the proofs\<close>

text \<open>
  Between calls that are not interrupted the mutex is free and the semaphore counts the
  slot: 1 when it is occupied, 0 when it is empty.
\<close>

definition tidy :: "worker_thread \<Rightarrow> bool" where
  "tidy w = (mutex w = None \<and> semaphore w = (if parameters w = None then 0 else 1))"

text \<open>
  The program points inside a \<^verbatim>\<open>with QMutexLocker(self.mutex)\<close> block, for each thread, and
  the invariant that the mutex is held by exactly the thread that is at such a point.
\<close>

fun worker_holds :: "worker_pc \<Rightarrow> bool" where
  "worker_holds W_Read = True"
| "worker_holds (W_Unlock got) = True"
| "worker_holds _ = False"

fun submitter_holds :: "submitter_pc \<Rightarrow> bool" where
  "submitter_holds S_Idle = False"
| "submitter_holds (S_Lock p) = False"
| "submitter_holds _ = True"

definition lock_scope :: "'i system \<Rightarrow> bool" where
  "lock_scope s =
     (mutex (wt s) =
        (if worker_holds (worker_at s) then Some Worker
         else if submitter_holds (submitter_at s) then Some Submitter
         else None)
      \<and> \<not> (worker_holds (worker_at s) \<and> submitter_holds (submitter_at s)))"





text \<open>What \<^verbatim>\<open>init_ui\<close> establishes and no user event changes.\<close>

definition ui_inv :: "main_window \<Rightarrow> bool" where
  "ui_inv mw =
     (sb_minimum (version_box mw) = 0 \<and> sb_maximum (version_box mw) = 40
      \<and> 0 \<le> sb_value (version_box mw) \<and> sb_value (version_box mw) \<le> 40
      \<and> sb_minimum (scale_box mw) = 1 \<and> sb_maximum (scale_box mw) = 10
      \<and> 1 \<le> sb_value (scale_box mw) \<and> sb_value (scale_box mw) \<le> 10
      \<and> cb_items (mode_box mw) =
          [(''Automatic'', None), (''Numeric'', Some ''numeric''),
           (''Alphanumeric'', Some ''alphanumeric''), (''Binary'', Some ''binary'')]
      \<and> 0 \<le> cb_index (mode_box mw) \<and> cb_index (mode_box mw) < 4)"

section \<open>Properties of the mailbox\<close>

lemma set_parameters_free:
  assumes "mutex w = None"
  shows "set_parameters p w =
    Some (w\<lparr>semaphore := (if semaphore w = 0 then 1 else semaphore w), parameters := Some p\<rparr>)"
  using assms
  by (simp add: set_parameters_def mutex_lock_def mutex_unlock_def sem_available_def
      sem_release_def Let_def)

lemma submit_all_free:
  assumes "mutex w = None" and "ps \<noteq> []"
  shows "submit_all ps w =
    Some (w\<lparr>semaphore := (if semaphore w = 0 then 1 else semaphore w),
            parameters := Some (last ps)\<rparr>)"
  using assms
proof (induction ps arbitrary: w)
  case Nil
  then show ?case by simp
next
  case (Cons p ps)
  let ?w' = "w\<lparr>semaphore := (if semaphore w = 0 then 1 else semaphore w), parameters := Some p\<rparr>"
  have first: "set_parameters p w = Some ?w'"
    using Cons.prems(1) by (rule set_parameters_free)
  show ?case
  proof (cases "ps = []")
    case True
    with first show ?thesis by simp
  next
    case False
    have "mutex ?w' = None" using Cons.prems(1) by simp
    from Cons.IH [OF this False] first False show ?thesis by simp
  qed
qed

lemma get_parameters_ready:
  assumes "mutex w = None" and "0 < semaphore w"
  shows "get_parameters w =
    Some (parameters w, w\<lparr>semaphore := semaphore w - 1, parameters := None\<rparr>)"
  using assms
  by (simp add: get_parameters_def sem_acquire_def mutex_lock_def mutex_unlock_def Let_def)

lemma get_parameters_blocks:
  assumes "semaphore w = 0"
  shows "get_parameters w = None"
  using assms by (simp add: get_parameters_def sem_acquire_def)

text \<open>
  With uninterrupted calls the semaphore never holds a token for an empty slot, and
  \<^verbatim>\<open>get_parameters\<close> never returns \<^verbatim>\<open>None\<close>.
\<close>

lemma tidy_init: "tidy WorkerThread_init"
  by (simp add: tidy_def WorkerThread_init_def)

lemma tidy_set_parameters:
  assumes "tidy w" and "set_parameters p w = Some w'"
  shows "tidy w'"
  using assms set_parameters_free [of w p]
  by (auto simp: tidy_def split: if_splits)

lemma tidy_get_parameters:
  assumes "tidy w" and "get_parameters w = Some (got, w')"
  shows "tidy w' \<and> got \<noteq> None"
proof (cases "semaphore w = 0")
  case True
  with assms(2) get_parameters_blocks [of w] show ?thesis by simp
next
  case False
  with assms get_parameters_ready [of w] show ?thesis
    by (auto simp: tidy_def split: if_splits)
qed

lemma tidy_calls:
  assumes "tidy w" and "calls cs w = Some w'"
  shows "tidy w'"
  using assms
proof (induction cs w rule: calls.induct)
  case (1 w)
  then show ?case by simp
next
  case (2 p cs w)
  then show ?case
    by (auto split: option.splits dest: tidy_set_parameters)
next
  case (3 cs w)
  then show ?case
    by (auto split: option.splits dest: tidy_get_parameters)
qed

lemma uninterrupted_discipline:
  assumes "calls cs WorkerThread_init = Some w"
  shows "semaphore w = (if parameters w = None then 0 else 1)"
    and "get_parameters w = Some (got, w') \<Longrightarrow> got \<noteq> None"
proof -
  have t: "tidy w" using tidy_init assms by (rule tidy_calls)
  then show "semaphore w = (if parameters w = None then 0 else 1)"
    by (simp add: tidy_def)
  show "got \<noteq> None" if "get_parameters w = Some (got, w')"
    using tidy_get_parameters [OF t that] by simp
qed

text \<open>
  C1 (latest wins). After any non-empty burst \<open>ps\<close> of \<^verbatim>\<open>set_parameters\<close> calls with no
  \<^verbatim>\<open>get_parameters\<close> in between, one \<^verbatim>\<open>get_parameters\<close> returns exactly the last request of
  the burst and leaves the slot empty, so none of the earlier requests can be returned
  later. The burst does not queue up: the semaphore afterwards is what it was before less one
  (cut off at 0), and from a counter of at most 1 a second \<^verbatim>\<open>get_parameters\<close> blocks.
\<close>

theorem latest_wins:
  assumes "mutex w = None" and "ps \<noteq> []"
  shows "\<exists>w1 w2. submit_all ps w = Some w1
           \<and> get_parameters w1 = Some (Some (last ps), w2)
           \<and> parameters w2 = None
           \<and> semaphore w2 = semaphore w - 1
           \<and> (semaphore w \<le> 1 \<longrightarrow> get_parameters w2 = None)"
proof -
  let ?w1 = "w\<lparr>semaphore := (if semaphore w = 0 then 1 else semaphore w),
                parameters := Some (last ps)\<rparr>"
  let ?w2 = "?w1\<lparr>semaphore := semaphore ?w1 - 1, parameters := None\<rparr>"
  have a: "submit_all ps w = Some ?w1"
    using assms by (rule submit_all_free)
  have "mutex ?w1 = None" and "0 < semaphore ?w1"
    using assms(1) by simp_all
  then have b: "get_parameters ?w1 = Some (parameters ?w1, ?w2)"
    by (rule get_parameters_ready)
  have c: "semaphore w \<le> 1 \<longrightarrow> get_parameters ?w2 = None"
    by (auto intro!: get_parameters_blocks)
  from a b c show ?thesis by auto
qed

theorem latest_wins_witness:
  "mutex WorkerThread_init = None \<and> [R1, R2, R3] \<noteq> [] \<and>
   (\<exists>w1 w2. submit_all [R1, R2, R3] WorkerThread_init = Some w1
      \<and> get_parameters w1 = Some (Some R3, w2)
      \<and> parameters w2 = None \<and> semaphore w2 = 0 \<and> get_parameters w2 = None)"
  using latest_wins [of WorkerThread_init "[R1, R2, R3]"]
  by (simp add: WorkerThread_init_def)

section \<open>Properties of the worker loop\<close>

lemma try_body_create_raises:
  assumes "create (req_text r) (req_error r) (req_version r) (req_mode r) = Inl e"
  shows "try_body create png (Some r) = Inl e"
  using assms by (simp add: try_body_def unpack_def)

lemma run_Emitted:
  assumes "iteration create png got = Emitted sig"
  shows "run create png (got # rest) = (sig # fst (run create png rest), snd (run create png rest))"
  using assms by (simp add: case_prod_beta)

lemma run_Uncaught:
  assumes "iteration create png got = Uncaught e"
  shows "run create png (got # rest) = ([], Some e)"
  using assms by simp

lemma run_append:
  assumes "snd (run create png pre) = None"
  shows "run create png (pre @ rest) =
    (fst (run create png pre) @ fst (run create png rest), snd (run create png rest))"
  using assms
proof (induction pre)
  case Nil
  then show ?case by simp
next
  case (Cons got pre)
  show ?case
  proof (cases "iteration create png got")
    case (Emitted sig)
    with Cons.prems have "snd (run create png pre) = None"
      by (simp add: case_prod_beta)
    from Cons.IH [OF this] Emitted show ?thesis
      by (simp add: case_prod_beta)
  next
    case (Uncaught e)
    with Cons.prems show ?thesis by simp
  qed
qed

lemma iteration_not_ValueError:
  assumes "try_body create png got = Inl e" and "\<forall>m. e \<noteq> ValueError m"
  shows "iteration create png got = Uncaught e"
  using assms by (cases e) (simp_all add: iteration_def)

lemma png_raises_ValueError:
  assumes "create (req_text r) (req_error r) (req_version r) (req_mode r) = Inr qr"
    and "png qr (req_scale r) = Inl (ValueError m)"
  shows "iteration create png (Some r) = Emitted (errorOccurred m)"
  using assms by (simp add: iteration_def try_body_def unpack_def)

lemma run_length: "length (fst (run create png gots)) \<le> length gots"
  by (induction gots) (auto split: outcome.splits prod.splits)

text \<open>
  C3 (validation errors are isolated). When \<^verbatim>\<open>pyqrcode.create\<close> raises \<^verbatim>\<open>ValueError\<close> with
  message \<open>m\<close> on a consumed request, that pass emits \<^verbatim>\<open>errorOccurred(m)\<close> and raises nothing;
  the loop goes on, and whatever is consumed afterwards is processed exactly as it would be
  had the failing request never been there.
\<close>

theorem validation_error_isolated:
  assumes "create (req_text r) (req_error r) (req_version r) (req_mode r) = Inl (ValueError m)"
  shows "iteration create png (Some r) = Emitted (errorOccurred m)
       \<and> run create png (Some r # rest) =
           (errorOccurred m # fst (run create png rest), snd (run create png rest))"
proof -
  have "try_body create png (Some r) = Inl (ValueError m)"
    using assms by (rule try_body_create_raises)
  then have it: "iteration create png (Some r) = Emitted (errorOccurred m)"
    by (simp add: iteration_def)
  from it run_Emitted [OF it] show ?thesis by simp
qed

theorem validation_error_isolated_witness:
  "small_create (req_text (typed ''HELLO'')) (req_error (typed ''HELLO''))
       (req_version (typed ''HELLO'')) (req_mode (typed ''HELLO'')) = Inl (ValueError ''too long'')
   \<and> iteration small_create small_png (Some (typed ''HELLO'')) = Emitted (errorOccurred ''too long'')
   \<and> run small_create small_png [Some (typed ''HELLO''), Some (typed ''HI'')] =
       ([errorOccurred ''too long'', resultReady [''HI'', ''HI'', ''HI'', ''HI'', ''HI'']], None)"
proof -
  have h: "small_create (req_text (typed ''HELLO'')) (req_error (typed ''HELLO''))
       (req_version (typed ''HELLO'')) (req_mode (typed ''HELLO'')) = Inl (ValueError ''too long'')"
    by (simp add: small_create_def typed_def)
  have rest: "run small_create small_png [Some (typed ''HI'')] =
      ([resultReady [''HI'', ''HI'', ''HI'', ''HI'', ''HI'']], None)"
    by (simp add: iteration_def try_body_def unpack_def small_create_def small_png_def typed_def
        numeral_eq_Suc)
  from validation_error_isolated [where create = small_create and r = "typed ''HELLO''"
      and m = "''too long''" and png = small_png and rest = "[Some (typed ''HI'')]", OF h] h rest
  show ?thesis by simp
qed

text \<open>
  C5 (unknown errors are fatal). When the \<^verbatim>\<open>try\<close> block raises an exception \<open>e\<close> that is not
  a \<^verbatim>\<open>ValueError\<close>, the pass emits no signal and \<open>e\<close> leaves \<^verbatim>\<open>run\<close>: after any prefix
  of passes that raised nothing uncaught, the thread ends with \<open>e\<close>, having emitted only the
  signals of the prefix, and nothing consumed later is processed.
\<close>

theorem unknown_error_fatal:
  assumes "try_body create png got = Inl e" and "\<forall>m. e \<noteq> ValueError m"
    and "snd (run create png pre) = None"
  shows "iteration create png got = Uncaught e
       \<and> run create png (pre @ got # rest) = (fst (run create png pre), Some e)"
proof -
  have it: "iteration create png got = Uncaught e"
    using assms(1,2) by (rule iteration_not_ValueError)
  from run_append [OF assms(3), of "got # rest"] run_Uncaught [OF it, of rest] it
  show ?thesis by simp
qed

theorem unknown_error_fatal_witness:
  "try_body small_create small_png (Some (typed ''?'')) = Inl (OtherError ''KeyError'')
   \<and> (\<forall>m. OtherError ''KeyError'' \<noteq> ValueError m)
   \<and> snd (run small_create small_png [Some (typed ''HELLO'')]) = None
   \<and> iteration small_create small_png (Some (typed ''?'')) = Uncaught (OtherError ''KeyError'')
   \<and> run small_create small_png [Some (typed ''HELLO''), Some (typed ''?''), Some (typed ''HI'')] =
       ([errorOccurred ''too long''], Some (OtherError ''KeyError''))"
proof -
  have a: "try_body small_create small_png (Some (typed ''?'')) = Inl (OtherError ''KeyError'')"
    by (simp add: try_body_def unpack_def small_create_def typed_def)
  have b: "\<forall>m. OtherError ''KeyError'' \<noteq> ValueError m"
    by simp
  have c: "run small_create small_png [Some (typed ''HELLO'')] = ([errorOccurred ''too long''], None)"
    by (simp add: iteration_def try_body_def unpack_def small_create_def typed_def)
  then have d: "snd (run small_create small_png [Some (typed ''HELLO'')]) = None"
    by simp
  from unknown_error_fatal [OF a b d, of "[Some (typed ''HI'')]"] a b c
  show ?thesis by simp
qed





section \<open>Properties of the two threads\<close>

lemma exec_append:
  "exec create png (as @ bs) s =
     (case exec create png as s of None \<Rightarrow> None | Some s' \<Rightarrow> exec create png bs s')"
  by (induction as arbitrary: s) (auto split: option.splits)

text \<open>
  The steps of one method, taken without interruption, amount to the method as defined for
  the mailbox alone.
\<close>

lemma set_parameters_steps:
  assumes "submitter_at s = S_Idle" and "set_parameters p (wt s) = Some w'"
  shows "exec create png
      (Call p # (if semaphore (wt s) = 0 then [SubStep, SubStep, SubStep, SubStep, SubStep]
                 else [SubStep, SubStep, SubStep, SubStep])) s = Some (s\<lparr>wt := w'\<rparr>)"
  using assms
  by (cases s)
    (auto simp: step_def call_def submitter_step_def set_parameters_def mutex_lock_def
      mutex_unlock_def sem_available_def sem_release_def Let_def split: if_splits)

lemma get_parameters_steps:
  assumes "worker_at s = W_Acquire" and "get_parameters (wt s) = Some (got, w')"
  shows "exec create png [WorkStep, WorkStep, WorkStep, WorkStep] s =
    Some (s\<lparr>wt := w', worker_at := W_Process got\<rparr>)"
  using assms
  by (cases s)
    (auto simp: step_def worker_step_def get_parameters_def sem_acquire_def mutex_lock_def
      mutex_unlock_def Let_def split: if_splits)

text \<open>Before the first \<^verbatim>\<open>set_parameters\<close> nothing can move; a dead worker stays dead.\<close>

lemma quiescent_init: "quiescent create png system_init"
  by (simp add: quiescent_def system_init_def WorkerThread_init_def submitter_step_def
      worker_step_def sem_acquire_def)

lemma dead_worker_stays_dead:
  assumes "worker_at s = W_Dead e" and "exec create png as s = Some s'"
  shows "worker_at s' = W_Dead e \<and> emitted s' = emitted s"
  using assms
proof (induction as arbitrary: s)
  case Nil
  then show ?case by simp
next
  case (Cons a as)
  from Cons.prems(2) obtain s1 where
    s1: "step create png a s = Some s1" and rest: "exec create png as s1 = Some s'"
    by (auto split: option.splits)
  from s1 Cons.prems(1) have "worker_at s1 = W_Dead e \<and> emitted s1 = emitted s"
    by (cases a; cases "submitter_at s")
      (auto simp: step_def call_def submitter_step_def worker_step_def
        split: if_splits option.splits)
  with Cons.IH [OF _ rest] show ?case by simp
qed

text \<open>
  Latest wins, seen with the two threads: after a burst from the start the worker takes the
  last request of the burst and no other, and when its pass emits a signal that is the only
  signal emitted before the system comes to rest.
\<close>

lemma first_submit:
  "exec create png (submit_steps p) system_init =
     Some (system_init\<lparr>wt := \<lparr>semaphore = 1, mutex = None, parameters = Some p\<rparr>\<rparr>)"
  by (simp add: submit_steps_def step_def call_def submitter_step_def system_init_def
      WorkerThread_init_def mutex_lock_def mutex_unlock_def sem_available_def sem_release_def)

lemma later_submits:
  assumes "submitter_at s = S_Idle" and "mutex (wt s) = None" and "semaphore (wt s) = 1"
  shows "exec create png (concat (map later_submit ps)) s =
     Some (s\<lparr>wt := (wt s)\<lparr>parameters := (if ps = [] then parameters (wt s) else Some (last ps))\<rparr>\<rparr>)"
  using assms
proof (induction ps arbitrary: s)
  case Nil
  then show ?case by simp
next
  case (Cons p ps)
  let ?s1 = "s\<lparr>wt := (wt s)\<lparr>parameters := Some p\<rparr>\<rparr>"
  have one: "exec create png (later_submit p) s = Some ?s1"
    using Cons.prems
    by (cases s)
      (simp add: later_submit_def step_def call_def submitter_step_def mutex_lock_def
        mutex_unlock_def sem_available_def)
  have "submitter_at ?s1 = S_Idle" "mutex (wt ?s1) = None" "semaphore (wt ?s1) = 1"
    using Cons.prems by simp_all
  from Cons.IH [OF this] one show ?case
    by (simp add: exec_append)
qed

lemma burst_exec:
  assumes "ps \<noteq> []"
  shows "exec create png (burst ps) system_init =
     Some (system_init\<lparr>wt := \<lparr>semaphore = 1, mutex = None, parameters = Some (last ps)\<rparr>\<rparr>)"
proof (cases ps)
  case Nil
  with assms show ?thesis by simp
next
  case (Cons p qs)
  let ?s1 = "system_init\<lparr>wt := \<lparr>semaphore = 1, mutex = None, parameters = Some p\<rparr>\<rparr> :: 'a system"
  have "submitter_at ?s1 = S_Idle" "mutex (wt ?s1) = None" "semaphore (wt ?s1) = 1"
    by (simp_all add: system_init_def)
  from later_submits [OF this, of create png qs] first_submit [of create png p] Cons
  show ?thesis
    by (simp add: exec_append)
qed

lemma burst_taken:
  assumes "ps \<noteq> []"
  shows "exec create png (burst ps @ [WorkStep, WorkStep, WorkStep, WorkStep]) system_init
     = Some (system_init\<lparr>worker_at := W_Process (Some (last ps))\<rparr>)"
  using burst_exec [OF assms, of create png]
  by (simp add: exec_append step_def worker_step_def system_init_def WorkerThread_init_def
      sem_acquire_def mutex_lock_def mutex_unlock_def)

lemma burst_served_once:
  assumes "ps \<noteq> []" and "iteration create png (Some (last ps)) = Emitted sig"
  shows "exec create png (burst ps @ [WorkStep, WorkStep, WorkStep, WorkStep, WorkStep]) system_init
     = Some (system_init\<lparr>emitted := [sig]\<rparr>)"
    and "quiescent create png (system_init\<lparr>emitted := [sig]\<rparr>)"
proof -
  from burst_exec [OF assms(1), of create png] assms(2)
  show "exec create png (burst ps @ [WorkStep, WorkStep, WorkStep, WorkStep, WorkStep]) system_init
     = Some (system_init\<lparr>emitted := [sig]\<rparr>)"
    by (simp add: exec_append step_def worker_step_def system_init_def WorkerThread_init_def
        sem_acquire_def mutex_lock_def mutex_unlock_def)
  show "quiescent create png (system_init\<lparr>emitted := [sig]\<rparr>)"
    by (simp add: quiescent_def system_init_def WorkerThread_init_def submitter_step_def
        worker_step_def sem_acquire_def)
qed

lemma lock_scope_init: "lock_scope system_init"
  by (simp add: lock_scope_def system_init_def WorkerThread_init_def)

lemma worker_step_lock_scope:
  assumes "lock_scope s" and "worker_step create png s = Some s'"
  shows "lock_scope s'"
  using assms
  by (cases "worker_at s"; cases "submitter_at s")
    (auto simp: lock_scope_def worker_step_def sem_acquire_def mutex_lock_def mutex_unlock_def
      split: if_splits option.splits outcome.splits)

lemma submitter_step_lock_scope:
  assumes "lock_scope s" and "submitter_step s = Some s'"
  shows "lock_scope s'"
  using assms
  by (cases "worker_at s"; cases "submitter_at s")
    (auto simp: lock_scope_def submitter_step_def sem_available_def sem_release_def
      mutex_lock_def mutex_unlock_def split: if_splits option.splits)

lemma call_lock_scope:
  assumes "lock_scope s" and "call p s = Some s'"
  shows "lock_scope s'"
  using assms
  by (cases "worker_at s") (auto simp: lock_scope_def call_def split: if_splits)

lemma step_lock_scope:
  assumes "lock_scope s" and "step create png a s = Some s'"
  shows "lock_scope s'"
  using assms
  by (cases a)
    (auto simp: step_def intro: call_lock_scope submitter_step_lock_scope worker_step_lock_scope)

lemma exec_lock_scope:
  assumes "lock_scope s" and "exec create png as s = Some s'"
  shows "lock_scope s'"
  using assms
proof (induction as arbitrary: s)
  case Nil
  then show ?case by simp
next
  case (Cons a as)
  then show ?case
    by (auto split: option.splits dest: step_lock_scope)
qed

text \<open>
  C6 (lock scope). In every state the two threads can reach from the start, under any
  schedule, the worker holds the mutex exactly while it reads and clears the slot and leaves
  the \<^verbatim>\<open>with\<close> block, and the submitter exactly from the slot write to the end of its
  \<^verbatim>\<open>with\<close> block. The worker never holds it at the program point that runs
  \<^verbatim>\<open>pyqrcode.create\<close> and the rasterizer: it has been released before. (The submitter may
  take it for its own slot write while the worker is encoding.)
\<close>

theorem lock_scope_invariant:
  assumes "exec create png as system_init = Some s"
  shows "(mutex (wt s) = Some Worker \<longleftrightarrow>
            worker_at s = W_Read \<or> (\<exists>got. worker_at s = W_Unlock got))
       \<and> (mutex (wt s) = Some Submitter \<longleftrightarrow>
            (\<exists>p. submitter_at s = S_Write p) \<or> submitter_at s = S_Check
            \<or> submitter_at s = S_Release \<or> submitter_at s = S_Unlock)
       \<and> (\<forall>got. worker_at s = W_Process got \<longrightarrow> mutex (wt s) \<noteq> Some Worker)"
proof -
  have "lock_scope s"
    using lock_scope_init assms by (rule exec_lock_scope)
  then show ?thesis
    by (cases "worker_at s"; cases "submitter_at s") (auto simp: lock_scope_def)
qed

theorem lock_scope_invariant_witness:
  "exec small_create small_png (submit_steps R1 @ [WorkStep, WorkStep, WorkStep, WorkStep])
       system_init =
     Some \<lparr>wt = \<lparr>semaphore = 0, mutex = None, parameters = None\<rparr>,
            worker_at = W_Process (Some R1), submitter_at = S_Idle, emitted = []\<rparr>
   \<and> mutex (wt \<lparr>wt = \<lparr>semaphore = 0, mutex = None, parameters = None\<rparr>,
            worker_at = W_Process (Some R1), submitter_at = S_Idle,
            emitted = ([] :: string list signal list)\<rparr>) \<noteq> Some Worker"
proof -
  have h: "exec small_create small_png (submit_steps R1 @ [WorkStep, WorkStep, WorkStep, WorkStep])
       system_init =
     Some \<lparr>wt = \<lparr>semaphore = 0, mutex = None, parameters = None\<rparr>,
            worker_at = W_Process (Some R1), submitter_at = S_Idle, emitted = []\<rparr>"
    by code_simp
  from lock_scope_invariant [OF h] h show ?thesis by simp
qed

text \<open>
  C2 (wake-signal discipline), evaluated on the schedule \<open>race_schedule\<close>. After its first
  nine actions the worker has acquired the semaphore for \<open>R1\<close> and not yet locked the mutex,
  and the submitter is about to overwrite the occupied slot with \<open>R2\<close>, the semaphore reading
  0. After thirteen actions that overwrite has released the semaphore again. The worker then
  consumes \<open>R2\<close>, acquires the semaphore a second time, reads an empty slot, and the
  unpacking of \<^verbatim>\<open>None\<close> ends the thread with \<^verbatim>\<open>TypeError\<close>.
\<close>

theorem spurious_wake:
  "exec small_create small_png (take 9 race_schedule) system_init =
     Some \<lparr>wt = \<lparr>semaphore = 0, mutex = Some Submitter, parameters = Some R1\<rparr>,
            worker_at = W_Lock, submitter_at = S_Write R2, emitted = []\<rparr>
   \<and> exec small_create small_png (take 13 race_schedule) system_init =
     Some \<lparr>wt = \<lparr>semaphore = 1, mutex = None, parameters = Some R2\<rparr>,
            worker_at = W_Lock, submitter_at = S_Idle, emitted = []\<rparr>
   \<and> exec small_create small_png (take 20 race_schedule) system_init =
     Some \<lparr>wt = \<lparr>semaphore = 0, mutex = Some Worker, parameters = None\<rparr>,
            worker_at = W_Unlock None, submitter_at = S_Idle,
            emitted = [resultReady [''HE'', ''HE'', ''HE'', ''HE'', ''HE'']]\<rparr>
   \<and> exec small_create small_png race_schedule system_init =
     Some \<lparr>wt = \<lparr>semaphore = 0, mutex = None, parameters = None\<rparr>,
            worker_at = W_Dead (TypeError ''cannot unpack non-iterable NoneType object''),
            submitter_at = S_Idle,
            emitted = [resultReady [''HE'', ''HE'', ''HE'', ''HE'', ''HE'']]\<rparr>"
  by code_simp








text \<open>
  What a request comes to when its pass raises an exception other than \<^verbatim>\<open>ValueError\<close>,
  whether it is the first request or one submitted later to an idle worker: run through
  without interruption, the worker consumes it and ends, nothing more is emitted, and the
  system is at rest.
\<close>

lemma request_fatal:
  assumes "iteration create png (Some r) = Uncaught e"
    and "worker_at s = W_Acquire" and "submitter_at s = S_Idle"
    and "wt s = WorkerThread_init"
  shows "exec create png
       (Call r # [SubStep, SubStep, SubStep, SubStep, SubStep,
          WorkStep, WorkStep, WorkStep, WorkStep, WorkStep]) s =
     Some (s\<lparr>worker_at := W_Dead e\<rparr>)"
    and "quiescent create png (s\<lparr>worker_at := W_Dead e\<rparr>)"
proof -
  from assms
  show "exec create png
       (Call r # [SubStep, SubStep, SubStep, SubStep, SubStep,
          WorkStep, WorkStep, WorkStep, WorkStep, WorkStep]) s =
     Some (s\<lparr>worker_at := W_Dead e\<rparr>)"
    by (cases s)
      (simp add: step_def call_def submitter_step_def worker_step_def
        WorkerThread_init_def sem_available_def sem_release_def sem_acquire_def mutex_lock_def
        mutex_unlock_def)
  from assms(3) show "quiescent create png (s\<lparr>worker_at := W_Dead e\<rparr>)"
    by (simp add: quiescent_def submitter_step_def worker_step_def)
qed




section \<open>Properties of the submitted requests\<close>

lemma apply_events_snoc:
  "apply_events (es @ [e]) mw = user_event e (apply_events es mw)"
  by (induction es arbitrary: mw) simp_all

text \<open>
  The request \<^verbatim>\<open>MainWindow.__init__\<close> submits once the widgets are set up.
\<close>

lemma startup_request: "request_new_qr_code init_ui = typed []"
  by (simp add: request_new_qr_code_def init_ui_def typed_def get_version_def currentData_def
      addItem_def QComboBox_def QSpinBox_def setMinimum_def setMaximum_def setValue_def
      setRange_def)

lemma ui_inv_init: "ui_inv init_ui"
  by (simp add: ui_inv_def init_ui_def QSpinBox_def QComboBox_def setMinimum_def setMaximum_def
      setValue_def setRange_def addItem_def)

lemma ui_inv_user_event:
  assumes "ui_inv mw"
  shows "ui_inv (user_event e mw)"
  using assms
  by (cases e) (auto simp: ui_inv_def user_sets_def pick_entry_def)

lemma ui_inv_apply_events:
  assumes "ui_inv mw"
  shows "ui_inv (apply_events es mw)"
  using assms
  by (induction es arbitrary: mw) (simp_all add: ui_inv_user_event)

lemma ui_inv_reachable: "ui_inv (apply_events es init_ui)"
  using ui_inv_init by (rule ui_inv_apply_events)

lemma int_less4_cases: "0 \<le> (k::int) \<Longrightarrow> k < 4 \<Longrightarrow> k = 0 \<or> k = 1 \<or> k = 2 \<or> k = 3"
  by arith

lemma mode_of_inv:
  assumes "ui_inv mw"
  shows "currentData (mode_box mw) \<in>
    {None, Some ''numeric'', Some ''alphanumeric'', Some ''binary''}"
proof -
  from assms have r: "0 \<le> cb_index (mode_box mw)" "cb_index (mode_box mw) < 4"
    and it: "cb_items (mode_box mw) =
          [(''Automatic'', None), (''Numeric'', Some ''numeric''),
           (''Alphanumeric'', Some ''alphanumeric''), (''Binary'', Some ''binary'')]"
    by (simp_all add: ui_inv_def)
  from int_less4_cases [OF r] it show ?thesis
    by (auto simp: currentData_def)
qed

text \<open>
  C8 (version sentinel). Whatever the user has done, the version spin box holds a value from
  0 to 40. When it holds 0 the request carries \<^verbatim>\<open>None\<close> (automatic); when it holds a value
  \<open>v\<close> from 1 to 40 the request carries \<open>v\<close> unchanged; so the version of every submitted
  request is \<^verbatim>\<open>None\<close> or an integer from 1 to 40. Every value from 0 to 40 can be set, and
  the worker hands the version of the request to the encoder unchanged (shown with an encoder
  that returns the version it was given).
\<close>

theorem version_sentinel:
  "0 \<le> sb_value (version_box (apply_events es init_ui))
   \<and> sb_value (version_box (apply_events es init_ui)) \<le> 40
   \<and> (sb_value (version_box (apply_events es init_ui)) = 0 \<longrightarrow>
        req_version (request_new_qr_code (apply_events es init_ui)) = None)
   \<and> (1 \<le> sb_value (version_box (apply_events es init_ui)) \<longrightarrow>
        req_version (request_new_qr_code (apply_events es init_ui)) =
          Some (sb_value (version_box (apply_events es init_ui))))
   \<and> (req_version (request_new_qr_code (apply_events es init_ui)) = None
        \<or> (\<exists>v. req_version (request_new_qr_code (apply_events es init_ui)) = Some v
               \<and> 1 \<le> v \<and> v \<le> 40))
   \<and> (0 \<le> v \<and> v \<le> 40 \<longrightarrow>
        sb_value (version_box (apply_events (es @ [VersionChanged v]) init_ui)) = v)
   \<and> iteration (\<lambda>t e v m. Inr v) (\<lambda>qr k. Inr qr)
        (Some (request_new_qr_code (apply_events es init_ui))) =
      Emitted (resultReady (req_version (request_new_qr_code (apply_events es init_ui))))"
proof -
  have inv: "ui_inv (apply_events es init_ui)" by (rule ui_inv_reachable)
  note app = apply_events_snoc
  have echo: "iteration (\<lambda>t e v m. Inr v) (\<lambda>qr k. Inr qr)
        (Some (request_new_qr_code (apply_events es init_ui))) =
      Emitted (resultReady (req_version (request_new_qr_code (apply_events es init_ui))))"
    by (simp add: iteration_def try_body_def unpack_def)
  from inv have "0 \<le> sb_value (version_box (apply_events es init_ui))
   \<and> sb_value (version_box (apply_events es init_ui)) \<le> 40
   \<and> (sb_value (version_box (apply_events es init_ui)) = 0 \<longrightarrow>
        req_version (request_new_qr_code (apply_events es init_ui)) = None)
   \<and> (1 \<le> sb_value (version_box (apply_events es init_ui)) \<longrightarrow>
        req_version (request_new_qr_code (apply_events es init_ui)) =
          Some (sb_value (version_box (apply_events es init_ui))))
   \<and> (req_version (request_new_qr_code (apply_events es init_ui)) = None
        \<or> (\<exists>v. req_version (request_new_qr_code (apply_events es init_ui)) = Some v
               \<and> 1 \<le> v \<and> v \<le> 40))
   \<and> (0 \<le> v \<and> v \<le> 40 \<longrightarrow>
        sb_value (version_box (apply_events (es @ [VersionChanged v]) init_ui)) = v)"
    unfolding app
    by (auto simp: ui_inv_def request_new_qr_code_def get_version_def user_sets_def Let_def)
  with echo show ?thesis by blast
qed

theorem version_sentinel_witness:
  "sb_value (version_box (apply_events [VersionChanged 7] init_ui)) = 7
   \<and> req_version (request_new_qr_code (apply_events [VersionChanged 7] init_ui)) = Some 7
   \<and> sb_value (version_box (apply_events ([VersionChanged 7] @ [VersionChanged 0]) init_ui)) = 0
   \<and> req_version (request_new_qr_code (apply_events [VersionChanged 7, VersionChanged 0] init_ui))
       = None"
proof -
  have a: "sb_value (version_box (apply_events [VersionChanged 7] init_ui)) = 7"
    by code_simp
  have b: "sb_value (version_box (apply_events [VersionChanged 7, VersionChanged 0] init_ui)) = 0"
    by code_simp
  from version_sentinel [of "[VersionChanged 7]" 0]
    version_sentinel [of "[VersionChanged 7, VersionChanged 0]" 0] a b
  show ?thesis by simp
qed

text \<open>
  C10 (scale bound). The scale of every submitted request is an integer from 1 to 10, that
  of the request submitted at start-up is 5, and the worker hands the scale of the request
  to the rasterizer unchanged (shown with a rasterizer that returns the scale it was given).
\<close>

theorem scale_bound:
  "1 \<le> req_scale (request_new_qr_code (apply_events es init_ui))
   \<and> req_scale (request_new_qr_code (apply_events es init_ui)) \<le> 10
   \<and> req_scale (request_new_qr_code init_ui) = 5
   \<and> iteration (\<lambda>t e v m. Inr m) (\<lambda>qr k. Inr k)
        (Some (request_new_qr_code (apply_events es init_ui))) =
      Emitted (resultReady (req_scale (request_new_qr_code (apply_events es init_ui))))"
proof -
  have inv: "ui_inv (apply_events es init_ui)" by (rule ui_inv_reachable)
  have a: "req_scale (request_new_qr_code init_ui) = 5"
    by (simp add: request_new_qr_code_def init_ui_def QSpinBox_def setMinimum_def setMaximum_def
        setValue_def setRange_def)
  have b: "iteration (\<lambda>t e v m. Inr m) (\<lambda>qr k. Inr k)
        (Some (request_new_qr_code (apply_events es init_ui))) =
      Emitted (resultReady (req_scale (request_new_qr_code (apply_events es init_ui))))"
    by (simp add: iteration_def try_body_def unpack_def)
  from inv a b show ?thesis
    by (simp add: ui_inv_def request_new_qr_code_def)
qed

theorem scale_bound_witness:
  "req_scale (request_new_qr_code (apply_events [ScaleChanged 0, ScaleChanged 10] init_ui)) = 10
   \<and> req_scale (request_new_qr_code (apply_events [ScaleChanged 0] init_ui)) = 5
   \<and> 1 \<le> req_scale (request_new_qr_code (apply_events [ScaleChanged 0] init_ui))"
proof -
  have a: "req_scale (request_new_qr_code (apply_events [ScaleChanged 0, ScaleChanged 10] init_ui))
      = 10"
    by code_simp
  have b: "req_scale (request_new_qr_code (apply_events [ScaleChanged 0] init_ui)) = 5"
    by code_simp
  from scale_bound [of "[ScaleChanged 0]"] a b show ?thesis by simp
qed

text \<open>
  C9 (mode domain), as the code has it. The claim as stated fails for \<^verbatim>\<open>main.pyw\<close>: its mode
  box has no Kanji entry.
\<close>

theorem mode_domain_counterexample:
  "Some ''kanji'' \<notin> snd ` set (cb_items (mode_box init_ui))"
  by (simp add: init_ui_def addItem_def QComboBox_def)

text \<open>
  C9, amended. In \<^verbatim>\<open>main.pyw\<close> the mode of every submitted request is one of \<^verbatim>\<open>None\<close>
  (automatic), \<^verbatim>\<open>"numeric"\<close>, \<^verbatim>\<open>"alphanumeric"\<close> and \<^verbatim>\<open>"binary"\<close>; each of the four can be
  chosen, and the worker hands the chosen one to the encoder unchanged (shown with an
  encoder that returns the mode it was given). A Kanji entry exists only in the mode box of
  the earlier variants.
\<close>

theorem mode_domain:
  "req_mode (request_new_qr_code (apply_events es init_ui)) \<in>
     {None, Some ''numeric'', Some ''alphanumeric'', Some ''binary''}
   \<and> (i < 4 \<longrightarrow>
        req_mode (request_new_qr_code (apply_events (es @ [ModeChosen i]) init_ui)) =
          [None, Some ''numeric'', Some ''alphanumeric'', Some ''binary''] ! i)
   \<and> iteration (\<lambda>t e v m. Inr m) (\<lambda>qr k. Inr qr)
        (Some (request_new_qr_code (apply_events es init_ui))) =
      Emitted (resultReady (req_mode (request_new_qr_code (apply_events es init_ui))))
   \<and> Some ''kanji'' \<in> snd ` set (cb_items mode_box_variant)"
proof -
  have inv: "ui_inv (apply_events es init_ui)" by (rule ui_inv_reachable)
  note app = apply_events_snoc
  have a: "req_mode (request_new_qr_code (apply_events es init_ui)) \<in>
     {None, Some ''numeric'', Some ''alphanumeric'', Some ''binary''}"
    using mode_of_inv [OF inv] by (simp add: request_new_qr_code_def)
  have b: "req_mode (request_new_qr_code (apply_events (es @ [ModeChosen i]) init_ui)) =
          [None, Some ''numeric'', Some ''alphanumeric'', Some ''binary''] ! i" if "i < 4"
  proof -
    from that have "i = 0 \<or> i = 1 \<or> i = 2 \<or> i = 3" by arith
    with inv show ?thesis
      unfolding app
      by (auto simp: ui_inv_def request_new_qr_code_def currentData_def pick_entry_def)
  qed
  have c: "iteration (\<lambda>t e v m. Inr m) (\<lambda>qr k. Inr qr)
        (Some (request_new_qr_code (apply_events es init_ui))) =
      Emitted (resultReady (req_mode (request_new_qr_code (apply_events es init_ui))))"
    by (simp add: iteration_def try_body_def unpack_def)
  have d: "Some ''kanji'' \<in> snd ` set (cb_items mode_box_variant)"
    by (simp add: mode_box_variant_def addItem_def QComboBox_def)
  from a b c d show ?thesis by blast
qed

theorem mode_domain_witness:
  "req_mode (request_new_qr_code (apply_events ([ModeChosen 1] @ [ModeChosen 3]) init_ui)) =
     Some ''binary''
   \<and> req_mode (request_new_qr_code (apply_events [ModeChosen 1] init_ui)) = Some ''numeric''"
proof -
  have a: "req_mode (request_new_qr_code (apply_events [ModeChosen 1] init_ui)) = Some ''numeric''"
    by code_simp
  from mode_domain [of "[ModeChosen 1]" 3] a show ?thesis by simp
qed

end
